theory Spec2Isabelle
  imports Main "HOL-Library.AList"
begin

section \<open>JavaScript values\<close>

text \<open>
  The validator (\<^verbatim>\<open>scripts/validate.js\<close>) and the locale merge tool
  (\<^verbatim>\<open>scripts/update_locales.js\<close>) work on the values that the YAML parser
  returns. They are modelled by \<open>jsval\<close>: an object is the list of its own
  properties in insertion order. Numbers are the integers (the dataset has no
  fractional number), a string is a list of characters (one \<open>char\<close> per
  character of the source string). Only own properties are modelled: the members an
  object inherits from \<^verbatim>\<open>Object.prototype\<close> are not.
\<close>

datatype jsval =
    JUndef
  | JNull
  | JBool bool
  | JNum int
  | JStr string
  | JArr "jsval list"
  | JObj "(string \<times> jsval) list"

text \<open>Truthiness, as \<^verbatim>\<open>!!v\<close> computes it.\<close>

fun truthy :: "jsval \<Rightarrow> bool" where
  "truthy JUndef = False"
| "truthy JNull = False"
| "truthy (JBool b) = b"
| "truthy (JNum n) = (n \<noteq> 0)"
| "truthy (JStr s) = (s \<noteq> [])"
| "truthy (JArr xs) = True"
| "truthy (JObj kvs) = True"

text \<open>Decimal digits of a natural number, most significant first.\<close>

fun digits_of :: "nat \<Rightarrow> string" where
  "digits_of n =
     (if n < 10 then [char_of (48 + n)]
      else digits_of (n div 10) @ [char_of (48 + n mod 10)])"

definition show_int :: "int \<Rightarrow> string" where
  "show_int i = (if i < 0 then CHR ''-'' # digits_of (nat (- i)) else digits_of (nat i))"

text \<open>\<^verbatim>\<open>Array.prototype.join\<close> on strings.\<close>

fun join_with :: "string \<Rightarrow> string list \<Rightarrow> string" where
  "join_with sep [] = []"
| "join_with sep [x] = x"
| "join_with sep (x # y # ys) = x @ sep @ join_with sep (y # ys)"

text \<open>
  \<^verbatim>\<open>String(v)\<close>, the conversion a template literal \<^verbatim>\<open>`${v}`\<close> and a
  computed property key \<^verbatim>\<open>obj[v]\<close> apply. An array joins its elements with a
  comma, \<^verbatim>\<open>null\<close> and \<^verbatim>\<open>undefined\<close> elements printing as the empty string.
\<close>

fun js_string :: "jsval \<Rightarrow> string" where
  "js_string JUndef = ''undefined''"
| "js_string JNull = ''null''"
| "js_string (JBool b) = (if b then ''true'' else ''false'')"
| "js_string (JNum n) = show_int n"
| "js_string (JStr s) = s"
| "js_string (JArr xs) =
     join_with '','' (map (\<lambda>x. if x = JUndef \<or> x = JNull then [] else js_string x) xs)"
| "js_string (JObj kvs) = ''[object Object]''"

datatype error =
    ValidationError string
  | TypeError string
  | RangeError string

text \<open>
  Reading a named field \<^verbatim>\<open>v.name\<close>. On \<^verbatim>\<open>null\<close> and \<^verbatim>\<open>undefined\<close> it
  throws; on an object it is the own property or \<^verbatim>\<open>undefined\<close>. The field names the
  scripts read (code, rules, args, cycle, type, ink, keywords, traits, languages,
  position) are no members of a string, a number, a boolean or an array.
\<close>

fun obj_lookup :: "(string \<times> jsval) list \<Rightarrow> string \<Rightarrow> jsval" where
  "obj_lookup kvs k = (case map_of kvs k of Some v \<Rightarrow> v | None \<Rightarrow> JUndef)"

fun get_field :: "jsval \<Rightarrow> string \<Rightarrow> error + jsval" where
  "get_field JUndef k = Inl (TypeError (''Cannot read properties of undefined (reading '' @ [CHR 0x27] @ k @ [CHR 0x27] @ '')''))"
| "get_field JNull k = Inl (TypeError (''Cannot read properties of null (reading '' @ [CHR 0x27] @ k @ [CHR 0x27] @ '')''))"
| "get_field (JObj kvs) k = Inr (obj_lookup kvs k)"
| "get_field v k = Inr JUndef"

text \<open>The colouring helper \<^verbatim>\<open>c(message)\<close>.\<close>

definition c :: "string \<Rightarrow> string" where
  "c message = CHR 0x1B # ''[32m'' @ message @ CHR 0x1B # ''[0m''"

section \<open>The keyword placeholder check\<close>

text \<open>
  \<^verbatim>\<open>/\{(.+?)\}/ig\<close>: an opening brace, one or more characters other than a line
  terminator, as few as possible, and a closing brace. \<open>lazy_close\<close> scans what follows
  the first character of the expression for the first closing brace. The line
  terminators are the line feed and the carriage return (the two separators of
  Unicode are no single \<open>char\<close>).
\<close>

definition line_terminator :: "char \<Rightarrow> bool" where
  "line_terminator ch = (ch = CHR 0x0A \<or> ch = CHR 0x0D)"

fun lazy_close :: "string \<Rightarrow> (string \<times> string) option" where
  "lazy_close [] = None"
| "lazy_close (ch # cs) =
     (if ch = CHR ''}'' then Some ([], cs)
      else if line_terminator ch then None
      else (case lazy_close cs of
              None \<Rightarrow> None
            | Some (taken, rest) \<Rightarrow> Some (ch # taken, rest)))"

lemma lazy_close_length: "lazy_close cs = Some (taken, rest) \<Longrightarrow> length rest < length cs"
  by (induction cs arbitrary: taken rest) (auto split: if_splits option.splits)

text \<open>
  \<^verbatim>\<open>str.match(re)\<close> with the global flag: every match of the whole pattern, from
  left to right, each search starting where the last match ended.
\<close>

function match_all :: "string \<Rightarrow> string list" where
  "match_all [] = []"
| "match_all (ch # cs) =
     (if ch = CHR ''{'' then
        (case cs of
           [] \<Rightarrow> []
         | d # ds \<Rightarrow>
             if line_terminator d then match_all cs
             else (case lazy_close ds of
                     None \<Rightarrow> match_all cs
                   | Some (taken, rest) \<Rightarrow> (ch # d # taken @ ''}'') # match_all rest))
      else match_all cs)"
  by pat_completeness auto
termination
  by (relation "measure length") (auto dest: lazy_close_length)

text \<open>\<^verbatim>\<open>s.indexOf(t) > -1\<close>: the string \<open>t\<close> occurs in \<open>s\<close>.\<close>

fun starts_with :: "string \<Rightarrow> string \<Rightarrow> bool" where
  "starts_with s [] = True"
| "starts_with [] (y # ys) = False"
| "starts_with (x # xs) (y # ys) = (x = y \<and> starts_with xs ys)"

fun includes_str :: "string \<Rightarrow> string \<Rightarrow> bool" where
  "includes_str [] t = (t = [])"
| "includes_str (x # xs) t = (starts_with (x # xs) t \<or> includes_str xs t)"

text \<open>
  \<^verbatim>\<open>_.includes(collection, value)\<close>: membership in an array (and in the values of
  an object), the substring test on a string, false on everything else.
\<close>

fun lodash_includes :: "jsval \<Rightarrow> jsval \<Rightarrow> bool" where
  "lodash_includes (JArr xs) v = (v \<in> set xs)"
| "lodash_includes (JStr s) v = includes_str s (js_string v)"
| "lodash_includes (JObj kvs) v = (v \<in> set (map snd (AList.clearjunk kvs)))"
| "lodash_includes other v = False"

text \<open>\<^verbatim>\<open>v || []\<close>.\<close>

definition or_empty :: "jsval \<Rightarrow> jsval" where
  "or_empty v = (if truthy v then v else JArr [])"

text \<open>
  The loop \<^verbatim>\<open>for(const [__, expr] of data.rules.match(re))\<close> destructures every
  element of the match array, which is the matched string itself: \<open>expr\<close> is bound to
  the second character of the match.
\<close>

fun second_of :: "string \<Rightarrow> jsval" where
  "second_of (x # y # ys) = JStr [y]"
| "second_of other = JUndef"

definition keyword_message :: "jsval \<Rightarrow> jsval \<Rightarrow> string" where
  "keyword_message expr code =
     ''Expression {'' @ c (js_string expr) @ ''} is not defined as arg in keyword '' @ c (js_string code)"

definition customCheckKeyword :: "jsval \<Rightarrow> error + string list" where
  "customCheckKeyword data =
     (case get_field data ''rules'' of
        Inl e \<Rightarrow> Inl e
      | Inr rules \<Rightarrow>
          if match_all (js_string rules) \<noteq> [] then
            (case rules of
               JStr s \<Rightarrow>
                 (case get_field data ''args'' of
                    Inl e \<Rightarrow> Inl e
                  | Inr args \<Rightarrow>
                      (case get_field data ''code'' of
                         Inl e \<Rightarrow> Inl e
                       | Inr code \<Rightarrow>
                           Inr (map (\<lambda>expr. keyword_message expr code)
                                  (filter (\<lambda>expr. \<not> lodash_includes (or_empty args) expr)
                                     (map second_of (match_all s))))))
             | other \<Rightarrow> Inl (TypeError ''data.rules.match is not a function''))
          else Inr [])"

section \<open>Objects used as dictionaries\<close>

text \<open>
  The own properties of an object are enumerated (\<^verbatim>\<open>Object.keys\<close>, \<^verbatim>\<open>_.values\<close>)
  with the array indices first, in ascending numeric order, and the other keys after
  them in insertion order. An array index is the canonical decimal form of an integer
  below \<open>2^32 - 1\<close>.
\<close>

definition is_digit :: "char \<Rightarrow> bool" where
  "is_digit ch = (48 \<le> (of_char ch :: int) \<and> (of_char ch :: int) \<le> 57)"

definition int_of_digits :: "string \<Rightarrow> int" where
  "int_of_digits s = foldl (\<lambda>acc ch. 10 * acc + ((of_char ch :: int) - 48)) 0 s"

definition is_array_index :: "string \<Rightarrow> bool" where
  "is_array_index s =
     (s \<noteq> [] \<and> list_all is_digit s \<and> (s = ''0'' \<or> take 1 s \<noteq> ''0'')
      \<and> int_of_digits s < 4294967295)"

definition js_own_order :: "(string \<times> 'a) list \<Rightarrow> (string \<times> 'a) list" where
  "js_own_order kvs =
     sort_key (\<lambda>kv. int_of_digits (fst kv)) (filter (\<lambda>kv. is_array_index (fst kv)) kvs)
     @ filter (\<lambda>kv. \<not> is_array_index (fst kv)) kvs"

definition js_values :: "(string \<times> 'a) list \<Rightarrow> 'a list" where
  "js_values kvs = map snd (js_own_order (AList.clearjunk kvs))"

text \<open>
  The assignment \<^verbatim>\<open>obj[key] = value\<close> on a plain object: an existing property
  keeps its place, a new one is added last. Under the key \<^verbatim>\<open>__proto__\<close> the
  assignment creates no own property.
\<close>

definition obj_assign :: "(string \<times> jsval) list \<Rightarrow> string \<Rightarrow> jsval \<Rightarrow> (string \<times> jsval) list" where
  "obj_assign kvs k v = (if k = ''__proto__'' then kvs else AList.update k v kvs)"

text \<open>
  The enumerable properties \<^verbatim>\<open>_.extend\<close> (\<^verbatim>\<open>_.assignIn\<close>) copies from one
  source: the properties of an object, the elements of an array under their indices,
  the characters of a string under theirs, and nothing from any other value.
\<close>

definition index_keys :: "nat \<Rightarrow> string list" where
  "index_keys n = map digits_of [0..<n]"

fun source_props :: "jsval \<Rightarrow> (string \<times> jsval) list" where
  "source_props (JObj kvs) = AList.clearjunk kvs"
| "source_props (JArr xs) = zip (index_keys (length xs)) xs"
| "source_props (JStr s) = zip (index_keys (length s)) (map (\<lambda>ch. JStr [ch]) s)"
| "source_props other = []"

text \<open>\<^verbatim>\<open>_.extend({}, a, b)\<close>.\<close>

definition lodash_extend :: "jsval \<Rightarrow> jsval \<Rightarrow> jsval" where
  "lodash_extend a b =
     JObj (foldl (\<lambda>acc kv. AList.update (fst kv) (snd kv) acc) [] (source_props a @ source_props b))"

text \<open>
  The path information of the card collection:
  \<^verbatim>\<open>pathInfo: (path) => ({ type: path.split("/")[0] })\<close>.
\<close>

definition path_first :: "string \<Rightarrow> string" where
  "path_first path = takeWhile (\<lambda>ch. ch \<noteq> CHR ''/'') path"

definition card_pathInfo :: "string \<Rightarrow> jsval" where
  "card_pathInfo path = JObj [(''type'', JStr (path_first path))]"

text \<open>The table \<^verbatim>\<open>things\<close> of \<^verbatim>\<open>ValidatorBase.validate\<close>, in its order.\<close>

definition things :: "(string \<times> (string \<Rightarrow> jsval) option) list" where
  "things =
     [(''ink'', None), (''trait'', None), (''keyword'', None), (''cycle'', None),
      (''rarity'', None), (''set'', None), (''type'', None),
      (''card'', Some card_pathInfo), (''printing'', None)]"

section \<open>The canonical form\<close>

definition keysort :: "string list" where
  "keysort =
     [''code'', ''card'', ''name'', ''version'', ''cost'', ''ink'', ''inkwell'',
      ''traits'', ''strength'', ''willpower'', ''lore'', ''text'', ''keywords'', ''set'',
      ''position'', ''rarity'', ''illustrator'', ''flavor'', ''args'',
      ''rules'', ''cycle'', ''size'', ''languages'']"

text \<open>\<^verbatim>\<open>_.indexOf\<close>: the first position of an element, \<open>-1\<close> when it is absent.\<close>

fun index_of :: "'a list \<Rightarrow> 'a \<Rightarrow> int" where
  "index_of [] x = - 1"
| "index_of (y # ys) x =
     (if x = y then 0 else (let i = index_of ys x in if i < 0 then - 1 else i + 1))"

definition sortKeys_cmp :: "string \<Rightarrow> string \<Rightarrow> int" where
  "sortKeys_cmp a b =
     (if a \<in> set keysort \<and> b \<in> set keysort then index_of keysort a - index_of keysort b
      else 0)"

definition replacer_data :: "string \<Rightarrow> jsval \<Rightarrow> jsval" where
  "replacer_data key v =
     (if key \<in> set [''text'', ''flavor'', ''rules''] then JStr (''***'' @ js_string v) else v)"

record dump_options =
  lineWidth :: int
  replacer :: "(string \<Rightarrow> jsval \<Rightarrow> jsval) option"
  sortKeys :: "string \<Rightarrow> string \<Rightarrow> int"

definition dump_options_schema :: dump_options where
  "dump_options_schema = \<lparr>lineWidth = - 1, replacer = None, sortKeys = sortKeys_cmp\<rparr>"

definition dump_options_data :: dump_options where
  "dump_options_data = \<lparr>lineWidth = - 1, replacer = Some replacer_data, sortKeys = sortKeys_cmp\<rparr>"

text \<open>\<^verbatim>\<open>text.split("\n")\<close> and the blank line \<^verbatim>\<open>formatYaml\<close> puts before every
  line that starts with a dash, the first line apart.\<close>

fun split_on :: "char \<Rightarrow> string \<Rightarrow> string list" where
  "split_on ch [] = [[]]"
| "split_on ch (x # xs) =
     (if x = ch then [] # split_on ch xs
      else (case split_on ch xs of
              [] \<Rightarrow> [[x]]
            | w # ws \<Rightarrow> (x # w) # ws))"

definition spread_line :: "string list \<Rightarrow> string \<Rightarrow> string list" where
  "spread_line lines line =
     (if starts_with line ''-'' \<and> lines \<noteq> [] then lines @ [[], line] else lines @ [line])"

definition nl :: string where
  "nl = [CHR 0x0A]"

section \<open>The world of a run\<close>

text \<open>
  The file tree: a path holds a directory (readable or not) or a file (readable or
  not, writable or not, with its text). The tree is the list of its paths with what
  each holds, and the dictionary \<^verbatim>\<open>this.collections\<close> the list of the kinds with
  the object registered for each.
\<close>

datatype node = Dir bool | File bool bool string

record error_counts =
  formatting :: nat
  validation :: nat
  nonFixedFormatting :: nat

definition no_errors :: error_counts where
  "no_errors = \<lparr>formatting = 0, validation = 0, nonFixedFormatting = 0\<rparr>"

text \<open>
  The state a validator works on. \<open>errors\<close> and \<open>togglePrefix\<close> belong to one
  validator object and its logger; \<open>collections\<close> is the object the constructor of
  \<^verbatim>\<open>I18NValidator\<close> passes on by reference (\<^verbatim>\<open>this.collections = collections\<close>),
  so the base validator and every locale validator work on the same one, as they do
  on the file tree, the standard output and the exit code of the process.
\<close>

record vstate =
  errors :: error_counts
  togglePrefix :: bool
  collections :: "(string \<times> (string \<times> jsval) list) list"
  disk :: "(string \<times> node) list"
  stdout :: "string list"
  exitCode :: "int option"

record logger =
  verbose :: int
  indent :: nat
  prefix :: string

text \<open>Which class the validator object is of: it decides \<^verbatim>\<open>customCheck\<close>.\<close>

datatype rules = BaseRules | LocaleRules string

record validator =
  basePath :: string
  dataPath :: string
  schemaPath :: string
  logger :: logger
  fixFormatting :: bool
  rules :: rules

text \<open>
  The libraries the scripts call are parameters of the model: the YAML parser and
  serializer (\<open>None\<close> when they throw), the glob of the YAML files below a directory,
  the schema compiler (\<open>None\<close> when it throws; a compiled schema answers with its
  verdict and its list of instance paths and messages) and the pluralizer. Each is
  taken to answer by its arguments alone. What \<^verbatim>\<open>console.error\<close> prints is left out
  of the state.
\<close>

type_synonym ajv_validator = "jsval \<Rightarrow> bool \<times> (string \<times> string) list"

record env =
  yamlLoad :: "string \<Rightarrow> jsval option"
  yamlDump :: "dump_options \<Rightarrow> jsval \<Rightarrow> string option"
  globYml :: "string \<Rightarrow> string list"
  ajvCompile :: "jsval \<Rightarrow> ajv_validator option"
  plural :: "string \<Rightarrow> string"

text \<open>\<^verbatim>\<open>path.join\<close> (without the normalisation of dots) and \<^verbatim>\<open>path.relative\<close> for
  a path below its base.\<close>

definition path_join :: "string list \<Rightarrow> string" where
  "path_join parts = join_with ''/'' (filter (\<lambda>part. part \<noteq> []) parts)"

definition path_relative :: "string \<Rightarrow> string \<Rightarrow> string" where
  "path_relative base path =
     (if starts_with path (base @ ''/'') then drop (length base + 1) path else path)"

definition checkDirAccess :: "(string \<times> node) list \<Rightarrow> string \<Rightarrow> error + unit" where
  "checkDirAccess d path =
     (case map_of d path of
        None \<Rightarrow> Inl (ValidationError (path @ '' is not a valid path''))
      | Some (File r w t) \<Rightarrow> Inl (ValidationError (path @ '' is not a valid path''))
      | Some (Dir r) \<Rightarrow>
          if r then Inr () else Inl (ValidationError (path @ '' is not a readable directory'')))"

definition testFileAccess :: "(string \<times> node) list \<Rightarrow> string \<Rightarrow> string option" where
  "testFileAccess d path =
     (case map_of d path of
        None \<Rightarrow> Some (path @ '' does not exists'')
      | Some (Dir r) \<Rightarrow> Some (path @ '' does not exists'')
      | Some (File r w t) \<Rightarrow> if r then None else Some (path @ '' is not a readable file''))"

definition checkFileAccess :: "(string \<times> node) list \<Rightarrow> string \<Rightarrow> error + unit" where
  "checkFileAccess d path =
     (case testFileAccess d path of
        None \<Rightarrow> Inr ()
      | Some result \<Rightarrow> if result \<noteq> [] then Inl (ValidationError result) else Inr ())"

definition readFileSync :: "(string \<times> node) list \<Rightarrow> string \<Rightarrow> string option" where
  "readFileSync d path =
     (case map_of d path of
        Some (File r w t) \<Rightarrow> if r then Some t else None
      | other \<Rightarrow> None)"

text \<open>\<^verbatim>\<open>fs.writeFileSync\<close> on a file that exists (the validator writes only to a file
  it has just read): \<open>None\<close> when the write throws.\<close>

definition writeFileSync ::
  "(string \<times> node) list \<Rightarrow> string \<Rightarrow> string \<Rightarrow> (string \<times> node) list option" where
  "writeFileSync d path t =
     (case map_of d path of
        Some (File r w old) \<Rightarrow> if w then Some (AList.update path (File r w t) d) else None
      | other \<Rightarrow> None)"

text \<open>\<^verbatim>\<open>Logger.log\<close>.\<close>

definition log :: "logger \<Rightarrow> string \<Rightarrow> int \<Rightarrow> vstate \<Rightarrow> vstate" where
  "log lg txt minimumVerbosity s =
     (if verbose lg \<ge> minimumVerbosity then
        (let s1 = (if togglePrefix s
                   then s\<lparr>stdout := stdout s @ [replicate (indent lg) CHR '' '', prefix lg]\<rparr>
                   else s);
             s2 = s1\<lparr>togglePrefix := False, stdout := stdout s1 @ [txt]\<rparr>
         in if includes_str txt nl then s2\<lparr>togglePrefix := True\<rparr> else s2)
      else s)"

definition add_formatting :: "vstate \<Rightarrow> vstate" where
  "add_formatting s = s\<lparr>errors := (errors s)\<lparr>formatting := formatting (errors s) + 1\<rparr>\<rparr>"

definition add_validation :: "vstate \<Rightarrow> vstate" where
  "add_validation s = s\<lparr>errors := (errors s)\<lparr>validation := validation (errors s) + 1\<rparr>\<rparr>"

definition add_nonFixedFormatting :: "vstate \<Rightarrow> vstate" where
  "add_nonFixedFormatting s =
     s\<lparr>errors := (errors s)\<lparr>nonFixedFormatting := nonFixedFormatting (errors s) + 1\<rparr>\<rparr>"

section \<open>Loading and auditing a file\<close>

definition formatYaml :: "env \<Rightarrow> jsval \<Rightarrow> dump_options \<Rightarrow> string option" where
  "formatYaml ev data opts =
     (case yamlDump ev opts data of
        None \<Rightarrow> None
      | Some dumped \<Rightarrow> Some (join_with nl (foldl spread_line [] (split_on CHR 0x0A dumped))))"

text \<open>The profile \<^verbatim>\<open>getDataFromFile\<close> serializes a file with.\<close>

definition profile_of :: "string \<Rightarrow> dump_options" where
  "profile_of filepath =
     (if includes_str filepath ''schema'' then dump_options_schema else dump_options_data)"

text \<open>The \<^verbatim>\<open>catch\<close> block of \<^verbatim>\<open>getDataFromFile\<close>.\<close>

definition file_failed :: "validator \<Rightarrow> string \<Rightarrow> vstate \<Rightarrow> jsval \<times> vstate" where
  "file_failed v filepath s =
     (JArr [],
      add_validation
        (log (logger v) (filepath @ '': File is not correctly formatted YAML'' @ nl) 0 s))"

definition getDataFromFile :: "validator \<Rightarrow> env \<Rightarrow> string \<Rightarrow> vstate \<Rightarrow> jsval \<times> vstate" where
  "getDataFromFile v ev filepath s =
     (case readFileSync (disk s) filepath of
        None \<Rightarrow> file_failed v filepath s
      | Some data \<Rightarrow>
          (case yamlLoad ev data of
             None \<Rightarrow> file_failed v filepath s
           | Some json \<Rightarrow>
               (let rel = path_relative (basePath v) filepath;
                    s1 = log (logger v) (rel @ '': Checking YAML formatting...'' @ nl) 4 s
                in case formatYaml ev json (profile_of filepath) of
                     None \<Rightarrow> file_failed v filepath s1
                   | Some formattedData \<Rightarrow>
                       if formattedData \<noteq> data then
                         (let s2 = add_formatting
                                     (log (logger v)
                                        (rel @ '': File is not correctly formatted YAML'' @ nl) 0 s1)
                          in if fixFormatting v \<and> formattedData \<noteq> [] then
                               (let s3 = log (logger v) (rel @ '': Fixing YAML formatting...'' @ nl) 0 s2
                                in case writeFileSync (disk s3) filepath formattedData of
                                     Some d \<Rightarrow> (json, s3\<lparr>disk := d\<rparr>)
                                   | None \<Rightarrow>
                                       (json,
                                        log (logger v) (rel @ '': Cannot open file to write.'' @ nl) 0
                                          (add_nonFixedFormatting s3)))
                             else (json, add_nonFixedFormatting s2))
                       else (json, s1))))"

text \<open>\<^verbatim>\<open>loadThingsData\<close>: the loop over the files and, in \<open>file_items\<close>, its body.\<close>

definition file_items :: "(string \<Rightarrow> jsval) option \<Rightarrow> string \<Rightarrow> jsval \<Rightarrow> jsval list" where
  "file_items pathInfo file loaded =
     (let items = (case loaded of JArr xs \<Rightarrow> xs | other \<Rightarrow> [other])
      in case pathInfo of
           None \<Rightarrow> items
         | Some f \<Rightarrow> map (\<lambda>item. lodash_extend item (f file)) items)"

fun loadFiles ::
  "validator \<Rightarrow> env \<Rightarrow> string \<Rightarrow> (string \<Rightarrow> jsval) option \<Rightarrow> string list \<Rightarrow> jsval list \<Rightarrow> vstate
     \<Rightarrow> jsval list \<times> vstate" where
  "loadFiles v ev thingPath pathInfo [] collection s = (collection, s)"
| "loadFiles v ev thingPath pathInfo (file # files) collection s =
     (case getDataFromFile v ev (path_join [thingPath, file]) s of
        (loaded, s1) \<Rightarrow>
          loadFiles v ev thingPath pathInfo files (collection @ file_items pathInfo file loaded) s1)"

definition loadThingsData ::
  "validator \<Rightarrow> env \<Rightarrow> string \<Rightarrow> (string \<Rightarrow> jsval) option \<Rightarrow> vstate \<Rightarrow> jsval list \<times> vstate" where
  "loadThingsData v ev thingPath pathInfo s =
     loadFiles v ev thingPath pathInfo (globYml ev thingPath) [] s"

section \<open>Cross-reference and business-rule checks\<close>

text \<open>\<^verbatim>\<open>this.collections[thing][key]\<close>: it throws when the collection of that kind
  was never registered.\<close>

definition coll_lookup ::
  "(string \<times> (string \<times> jsval) list) list \<Rightarrow> string \<Rightarrow> jsval \<Rightarrow> error + jsval" where
  "coll_lookup colls thing key =
     (case map_of colls thing of
        None \<Rightarrow>
          Inl (TypeError (''Cannot read properties of undefined (reading '' @ [CHR 0x27]
                          @ js_string key @ [CHR 0x27] @ '')''))
      | Some kvs \<Rightarrow> Inr (obj_lookup kvs (js_string key)))"

definition customCheckSet ::
  "(string \<times> (string \<times> jsval) list) list \<Rightarrow> jsval \<Rightarrow> error + string list" where
  "customCheckSet colls data =
     (case get_field data ''cycle'' of
        Inl e \<Rightarrow> Inl e
      | Inr cycle \<Rightarrow>
          if truthy cycle then
            (case coll_lookup colls ''cycle'' cycle of
               Inl e \<Rightarrow> Inl e
             | Inr found \<Rightarrow>
                 if \<not> truthy found then
                   (case get_field data ''code'' of
                      Inl e \<Rightarrow> Inl e
                    | Inr code \<Rightarrow>
                        Inr [''Cycle code '' @ [CHR 0x27] @ js_string cycle @ [CHR 0x27]
                             @ '' does not exists in set '' @ [CHR 0x27] @ c (js_string code)
                             @ [CHR 0x27]])
                 else Inr [])
          else Inr [])"

text \<open>One reference of a card: \<^verbatim>\<open>if(!this.collections[kind][ref]) validations.push(...)\<close>.\<close>

definition check_ref ::
  "(string \<times> (string \<times> jsval) list) list \<Rightarrow> string \<Rightarrow> string \<Rightarrow> jsval \<Rightarrow> jsval
     \<Rightarrow> error + string list" where
  "check_ref colls kind label code ref =
     (case coll_lookup colls kind ref of
        Inl e \<Rightarrow> Inl e
      | Inr found \<Rightarrow>
          if \<not> truthy found then
            Inr [label @ '' code '' @ [CHR 0x27] @ js_string ref @ [CHR 0x27]
                 @ '' does not exists in set '' @ [CHR 0x27] @ c (js_string code) @ [CHR 0x27]]
          else Inr [])"

fun check_refs ::
  "(string \<times> (string \<times> jsval) list) list \<Rightarrow> string \<Rightarrow> string \<Rightarrow> jsval \<Rightarrow> jsval list
     \<Rightarrow> error + string list" where
  "check_refs colls kind label code [] = Inr []"
| "check_refs colls kind label code (ref # refs) =
     (case check_ref colls kind label code ref of
        Inl e \<Rightarrow> Inl e
      | Inr found \<Rightarrow>
          (case check_refs colls kind label code refs of
             Inl e \<Rightarrow> Inl e
           | Inr others \<Rightarrow> Inr (found @ others)))"

text \<open>What \<^verbatim>\<open>for (const x of v)\<close> iterates over: the elements of an array, the
  characters of a string; any other value is not iterable.\<close>

fun js_iter :: "jsval \<Rightarrow> error + jsval list" where
  "js_iter (JArr xs) = Inr xs"
| "js_iter (JStr s) = Inr (map (\<lambda>ch. JStr [ch]) s)"
| "js_iter other = Inl (TypeError ''value is not iterable'')"

text \<open>\<^verbatim>\<open>_.has(data, key)\<close>: an own property.\<close>

fun lodash_has :: "jsval \<Rightarrow> string \<Rightarrow> bool" where
  "lodash_has (JObj kvs) k = (k \<in> set (map fst kvs))"
| "lodash_has other k = False"

definition customCheckCardCharacter :: "jsval \<Rightarrow> error + string list" where
  "customCheckCardCharacter data =
     (let missing = filter (\<lambda>required. \<not> lodash_has data required)
                      [''version'', ''strength'', ''willpower'', ''lore'']
      in if missing = [] then Inr []
         else (case get_field data ''code'' of
                 Inl e \<Rightarrow> Inl e
               | Inr code \<Rightarrow>
                   Inr (map (\<lambda>required. ''Character card code '' @ c (js_string code)
                                          @ '' must have attribute '' @ required) missing)))"

text \<open>\<^verbatim>\<open>_.upperFirst\<close> with the string conversion of lodash in front of it
  (letters outside a to z are left as they are).\<close>

definition to_upper :: "char \<Rightarrow> char" where
  "to_upper ch =
     (if 97 \<le> (of_char ch :: int) \<and> (of_char ch :: int) \<le> 122
      then char_of ((of_char ch :: int) - 32) else ch)"

fun lodash_baseToString :: "jsval \<Rightarrow> string" where
  "lodash_baseToString (JArr xs) = join_with '','' (map lodash_baseToString xs)"
| "lodash_baseToString other = js_string other"

definition lodash_toString :: "jsval \<Rightarrow> string" where
  "lodash_toString v = (if v = JUndef \<or> v = JNull then [] else lodash_baseToString v)"

definition upperFirst :: "string \<Rightarrow> string" where
  "upperFirst s = (case s of [] \<Rightarrow> [] | ch # cs \<Rightarrow> to_upper ch # cs)"

text \<open>
  \<^verbatim>\<open>customCheckCard\<close>. Its last step looks a method up by the name
  \<^verbatim>\<open>customCheckCard\<close> followed by the capitalised type: that is
  \<^verbatim>\<open>customCheckCardCharacter\<close> for a character, the method itself for an empty type
  (a call that never returns but by the overflow of the stack), and no method for
  every other type.
\<close>

definition customCheckCard ::
  "(string \<times> (string \<times> jsval) list) list \<Rightarrow> jsval \<Rightarrow> error + string list" where
  "customCheckCard colls data =
     (case get_field data ''type'' of
        Inl e \<Rightarrow> Inl e
      | Inr type \<Rightarrow>
     (case get_field data ''code'' of
        Inl e \<Rightarrow> Inl e
      | Inr code \<Rightarrow>
     (case (if truthy type then check_ref colls ''type'' ''Type'' code type else Inr []) of
        Inl e \<Rightarrow> Inl e
      | Inr v1 \<Rightarrow>
     (case get_field data ''ink'' of
        Inl e \<Rightarrow> Inl e
      | Inr ink \<Rightarrow>
     (case (if truthy ink then check_ref colls ''ink'' ''Ink'' code ink else Inr []) of
        Inl e \<Rightarrow> Inl e
      | Inr v2 \<Rightarrow>
     (case get_field data ''keywords'' of
        Inl e \<Rightarrow> Inl e
      | Inr keywords \<Rightarrow>
     (case js_iter (or_empty keywords) of
        Inl e \<Rightarrow> Inl e
      | Inr ks \<Rightarrow>
     (case check_refs colls ''keyword'' ''Keyword'' code ks of
        Inl e \<Rightarrow> Inl e
      | Inr v3 \<Rightarrow>
     (case get_field data ''traits'' of
        Inl e \<Rightarrow> Inl e
      | Inr traits \<Rightarrow>
     (case js_iter (or_empty traits) of
        Inl e \<Rightarrow> Inl e
      | Inr ts \<Rightarrow>
     (case check_refs colls ''trait'' ''Trait'' code ts of
        Inl e \<Rightarrow> Inl e
      | Inr v4 \<Rightarrow>
          (let methodName = ''customCheckCard'' @ upperFirst (lodash_toString type)
           in if methodName = ''customCheckCardCharacter'' then
                (case customCheckCardCharacter data of
                   Inl e \<Rightarrow> Inl e
                 | Inr v5 \<Rightarrow> Inr (v1 @ v2 @ v3 @ v4 @ v5))
              else if methodName = ''customCheckCard'' then
                Inl (RangeError ''Maximum call stack size exceeded'')
              else Inr (v1 @ v2 @ v3 @ v4)))))))))))))"

text \<open>The \<^verbatim>\<open>customCheck\<close> of \<^verbatim>\<open>I18NValidator\<close>.\<close>

definition customCheckLocale ::
  "string \<Rightarrow> (string \<times> (string \<times> jsval) list) list \<Rightarrow> string \<Rightarrow> jsval \<Rightarrow> error + string list" where
  "customCheckLocale locale colls thing thingData =
     (case get_field thingData ''code'' of
        Inl e \<Rightarrow> Inl e
      | Inr code \<Rightarrow>
          if truthy code then
            (case coll_lookup colls thing code of
               Inl e \<Rightarrow> Inl e
             | Inr found \<Rightarrow>
                 if \<not> truthy found then
                   Inr [c thing @ '' code '' @ [CHR 0x27] @ js_string code @ [CHR 0x27]
                        @ '' does not exists in '' @ [CHR 0x27] @ locale @ [CHR 0x27] @ '' ''
                        @ thing @ '' translations'']
                 else Inr [])
          else Inr [])"

text \<open>
  \<^verbatim>\<open>customCheck\<close>: the base class looks a method up by the name \<^verbatim>\<open>customCheck\<close>
  followed by the capitalised kind; \<^verbatim>\<open>I18NValidator\<close> overrides it.
\<close>

definition customCheck ::
  "rules \<Rightarrow> (string \<times> (string \<times> jsval) list) list \<Rightarrow> string \<Rightarrow> jsval \<Rightarrow> error + string list" where
  "customCheck r colls thing thingData =
     (case r of
        LocaleRules locale \<Rightarrow> customCheckLocale locale colls thing thingData
      | BaseRules \<Rightarrow>
          (let methodName = ''customCheck'' @ upperFirst thing
           in if methodName = ''customCheckKeyword'' then customCheckKeyword thingData
              else if methodName = ''customCheckSet'' then customCheckSet colls thingData
              else if methodName = ''customCheckCard'' then customCheckCard colls thingData
              else if methodName = ''customCheckCardCharacter'' then customCheckCardCharacter thingData
              else if methodName = ''customCheck'' then
                Inl (RangeError ''Maximum call stack size exceeded'')
              else Inr []))"

section \<open>Validating records and collections\<close>

definition replace_slashes :: "string \<Rightarrow> string" where
  "replace_slashes path = map (\<lambda>ch. if ch = CHR ''/'' then CHR ''.'' else ch) path"

definition error_header :: "string \<Rightarrow> jsval \<Rightarrow> string" where
  "error_header thing code =
     ''Validation error in '' @ c thing @ '': (code: '' @ js_string code @ '')'' @ nl"

definition validateSchema ::
  "validator \<Rightarrow> string \<Rightarrow> jsval \<Rightarrow> ajv_validator \<Rightarrow> vstate \<Rightarrow> error + (bool \<times> vstate)" where
  "validateSchema v thing thingData validate s =
     (case get_field thingData ''code'' of
        Inl e \<Rightarrow> Inl e
      | Inr code \<Rightarrow>
          (let s1 = log (logger v) (''Validating '' @ c thing @ '' '' @ js_string code @ ''... '') 2 s
           in case validate thingData of
                (valid, schemaErrors) \<Rightarrow>
                  if valid then
                    (case customCheck (rules v) (collections s1) thing thingData of
                       Inl e \<Rightarrow> Inl e
                     | Inr customErrors \<Rightarrow>
                         if length customErrors = 0 then
                           Inr (valid, log (logger v) ('' OK'' @ nl) 2 s1)
                         else
                           Inr (valid,
                                log (logger v)
                                  (join_with nl (map (\<lambda>e. ''  - '' @ e) customErrors) @ nl) 0
                                  (add_validation
                                     (log (logger v) (error_header thing code) 0
                                        (log (logger v) ('' ERROR'' @ nl) 2 s1)))))
                  else
                    Inr (valid,
                         log (logger v)
                           (join_with nl
                              (map (\<lambda>e. ''  - '' @ c (thing @ replace_slashes (fst e)) @ '' '' @ snd e)
                                 schemaErrors) @ nl) 0
                           (add_validation
                              (log (logger v) (error_header thing code) 0
                                 (log (logger v) ('' ERROR'' @ nl) 2 s1))))))"

text \<open>The loop of \<^verbatim>\<open>validateCollection\<close>:
  \<^verbatim>\<open>retVal = this.validateSchema(thing, thingData, validator) && retVal\<close>.\<close>

fun validateAll ::
  "validator \<Rightarrow> string \<Rightarrow> ajv_validator \<Rightarrow> jsval list \<Rightarrow> bool \<Rightarrow> vstate \<Rightarrow> error + (bool \<times> vstate)" where
  "validateAll v thing validate [] retVal s = Inr (retVal, s)"
| "validateAll v thing validate (thingData # thingsData) retVal s =
     (case validateSchema v thing thingData validate s of
        Inl e \<Rightarrow> Inl e
      | Inr (valid, s1) \<Rightarrow> validateAll v thing validate thingsData (valid \<and> retVal) s1)"

text \<open>\<^verbatim>\<open>checkJsonSchema\<close>: a schema that does not compile is logged and counted.\<close>

definition checkJsonSchema ::
  "validator \<Rightarrow> env \<Rightarrow> jsval \<Rightarrow> string \<Rightarrow> vstate \<Rightarrow> ajv_validator option \<times> vstate" where
  "checkJsonSchema v ev data path s =
     (case ajvCompile ev data of
        Some validate \<Rightarrow> (Some validate, s)
      | None \<Rightarrow>
          (None,
           add_validation
             (log (logger v) (path @ '': schema file is not a valid JSON Schema'' @ nl) 0 s)))"

text \<open>The progress lines of \<^verbatim>\<open>loadCollection\<close> and \<^verbatim>\<open>validateCollection\<close>, and
  the paths of the directory and of the schema of a kind.\<close>

definition loading_notice :: "env \<Rightarrow> string \<Rightarrow> string" where
  "loading_notice ev thing = ''Loading collection of '' @ c (plural ev thing) @ ''...'' @ nl"

definition validating_notice :: "env \<Rightarrow> string \<Rightarrow> string" where
  "validating_notice ev thing = ''Validating collection of '' @ c (plural ev thing) @ nl"

definition thingDir :: "validator \<Rightarrow> env \<Rightarrow> string \<Rightarrow> string" where
  "thingDir v ev thing = path_join [dataPath v, plural ev thing]"

definition schemaFile :: "validator \<Rightarrow> string \<Rightarrow> string" where
  "schemaFile v thing = path_join [schemaPath v, thing @ ''_schema.yml'']"

definition validateCollection ::
  "validator \<Rightarrow> env \<Rightarrow> string \<Rightarrow> jsval list \<Rightarrow> vstate \<Rightarrow> error + (bool \<times> vstate)" where
  "validateCollection v ev thing thingsData s =
     (let s1 = log (logger v) (validating_notice ev thing) 1 s;
          path = schemaFile v thing
      in case checkFileAccess (disk s1) path of
           Inl e \<Rightarrow> Inl e
         | Inr u \<Rightarrow>
             (case getDataFromFile v ev path s1 of
                (schemaData, s2) \<Rightarrow>
                  if \<not> truthy schemaData then Inr (False, s2)
                  else (case checkJsonSchema v ev schemaData path s2 of
                          (None, s3) \<Rightarrow> Inr (False, s3)
                        | (Some validate, s3) \<Rightarrow> validateAll v thing validate thingsData True s3)))"

definition loadCollection ::
  "validator \<Rightarrow> env \<Rightarrow> string \<Rightarrow> (string \<Rightarrow> jsval) option \<Rightarrow> vstate
     \<Rightarrow> error + (jsval list option \<times> vstate)" where
  "loadCollection v ev thing pathInfo s =
     (let s1 = log (logger v) (loading_notice ev thing) 1 s;
          thingPath = thingDir v ev thing
      in case checkDirAccess (disk s1) thingPath of
           Inl e \<Rightarrow> Inl e
         | Inr u \<Rightarrow>
             (case loadThingsData v ev thingPath pathInfo s1 of
                (thingsData, s2) \<Rightarrow>
                  (case validateCollection v ev thing thingsData s2 of
                     Inl e \<Rightarrow> Inl e
                   | Inr (ok, s3) \<Rightarrow> Inr (if ok then Some thingsData else None, s3))))"

text \<open>\<^verbatim>\<open>loadCollections\<close>: every item is stored under its code, whatever is there.\<close>

fun store_items :: "(string \<times> jsval) list \<Rightarrow> jsval list \<Rightarrow> error + (string \<times> jsval) list" where
  "store_items kvs [] = Inr kvs"
| "store_items kvs (item # items) =
     (case get_field item ''code'' of
        Inl e \<Rightarrow> Inl e
      | Inr code \<Rightarrow> store_items (obj_assign kvs (js_string code) item) items)"

definition loadCollections :: "string \<Rightarrow> jsval list \<Rightarrow> vstate \<Rightarrow> error + vstate" where
  "loadCollections thing collection s =
     (case store_items (case map_of (collections s) thing of None \<Rightarrow> [] | Some kvs \<Rightarrow> kvs)
             collection of
        Inl e \<Rightarrow> Inl e
      | Inr kvs \<Rightarrow> Inr (s\<lparr>collections := AList.update thing kvs (collections s)\<rparr>))"

section \<open>The run\<close>

text \<open>The loop of \<^verbatim>\<open>ValidatorBase.validate\<close> over the kinds.\<close>

fun validateThings ::
  "validator \<Rightarrow> env \<Rightarrow> (string \<times> (string \<Rightarrow> jsval) option) list \<Rightarrow> vstate \<Rightarrow> error + vstate" where
  "validateThings v ev [] s = Inr s"
| "validateThings v ev ((thing, pathInfo) # rest) s =
     (case loadCollection v ev thing pathInfo s of
        Inl e \<Rightarrow> Inl e
      | Inr (None, s1) \<Rightarrow> validateThings v ev rest s1
      | Inr (Some collection, s1) \<Rightarrow>
          (case loadCollections thing collection s1 of
             Inl e \<Rightarrow> Inl e
           | Inr s2 \<Rightarrow> validateThings v ev rest s2))"

definition ValidatorBase_validate :: "validator \<Rightarrow> env \<Rightarrow> vstate \<Rightarrow> error + vstate" where
  "ValidatorBase_validate v ev s =
     (case checkDirAccess (disk s) (dataPath v) of
        Inl e \<Rightarrow> Inl e
      | Inr u \<Rightarrow>
          (case checkDirAccess (disk s) (schemaPath v) of
             Inl e \<Rightarrow> Inl e
           | Inr u' \<Rightarrow> validateThings v ev things (log (logger v) (''Validating data...'' @ nl) 0 s)))"

text \<open>The constructors: \<^verbatim>\<open>ValidatorBase\<close> with the class \<^verbatim>\<open>Validator\<close> on top, and
  \<^verbatim>\<open>I18NValidator\<close>, which fails when the locale is not a string
  (\<^verbatim>\<open>path.join\<close> takes strings only).\<close>

definition new_Validator :: "string \<Rightarrow> logger \<Rightarrow> bool \<Rightarrow> validator" where
  "new_Validator base lg fix =
     \<lparr>basePath = base, dataPath = path_join [base, ''data''],
      schemaPath = path_join [base, ''schema''], logger = lg, fixFormatting = fix,
      rules = BaseRules\<rparr>"

definition new_I18NValidator :: "jsval \<Rightarrow> string \<Rightarrow> logger \<Rightarrow> bool \<Rightarrow> error + validator" where
  "new_I18NValidator locale base lg fix =
     (case locale of
        JStr l \<Rightarrow>
          Inr \<lparr>basePath = base,
               dataPath = path_join [path_join [base, ''data''], ''translations'', l],
               schemaPath = path_join [path_join [base, ''schema''], ''translations''],
               logger = lg, fixFormatting = fix, rules = LocaleRules l\<rparr>
      | other \<Rightarrow> Inl (TypeError ''The path argument must be of type string''))"

definition add_counts :: "error_counts \<Rightarrow> error_counts \<Rightarrow> error_counts" where
  "add_counts a b =
     \<lparr>formatting = formatting a + formatting b, validation = validation a + validation b,
      nonFixedFormatting = nonFixedFormatting a + nonFixedFormatting b\<rparr>"

text \<open>
  One pass of the loop of \<^verbatim>\<open>validateLocales\<close>: a new logger and a new
  \<^verbatim>\<open>I18NValidator\<close> with counters of its own, on the collections, the file tree and
  the output of the run; its counters are added to those of the run.
\<close>

definition validateLocale :: "validator \<Rightarrow> env \<Rightarrow> jsval \<Rightarrow> vstate \<Rightarrow> error + vstate" where
  "validateLocale v ev locale s =
     (let i18nLogger = \<lparr>verbose = verbose (logger v), indent = indent (logger v) + 4,
                        prefix = ''['' @ js_string locale @ ''] ''\<rparr>
      in case new_I18NValidator locale (basePath v) i18nLogger (fixFormatting v) of
           Inl e \<Rightarrow> Inl e
         | Inr i18nValidator \<Rightarrow>
             (case ValidatorBase_validate i18nValidator ev
                     (s\<lparr>errors := no_errors, togglePrefix := True\<rparr>) of
                Inl e \<Rightarrow> Inl e
              | Inr t \<Rightarrow>
                  Inr (t\<lparr>errors := add_counts (errors s) (errors t),
                         togglePrefix := togglePrefix s\<rparr>)))"

fun validateLocaleList :: "validator \<Rightarrow> env \<Rightarrow> jsval list \<Rightarrow> vstate \<Rightarrow> error + vstate" where
  "validateLocaleList v ev [] s = Inr s"
| "validateLocaleList v ev (locale # locales) s =
     (case validateLocale v ev locale s of
        Inl e \<Rightarrow> Inl e
      | Inr s1 \<Rightarrow> validateLocaleList v ev locales s1)"

text \<open>\<^verbatim>\<open>_.flatten\<close> (one level) and \<^verbatim>\<open>_.uniq\<close> (the first occurrence stays).\<close>

definition lodash_flatten :: "jsval list \<Rightarrow> jsval list" where
  "lodash_flatten xs = concat (map (\<lambda>x. case x of JArr ys \<Rightarrow> ys | other \<Rightarrow> [other]) xs)"

fun lodash_uniq :: "'a list \<Rightarrow> 'a list" where
  "lodash_uniq [] = []"
| "lodash_uniq (x # xs) = x # lodash_uniq (filter (\<lambda>y. y \<noteq> x) xs)"

fun fields_of :: "string \<Rightarrow> jsval list \<Rightarrow> error + jsval list" where
  "fields_of k [] = Inr []"
| "fields_of k (x # xs) =
     (case get_field x k of
        Inl e \<Rightarrow> Inl e
      | Inr f \<Rightarrow> (case fields_of k xs of Inl e \<Rightarrow> Inl e | Inr fs \<Rightarrow> Inr (f # fs)))"

text \<open>The locales of \<^verbatim>\<open>validateLocales\<close>: the languages of the sets, each once,
  without \<^verbatim>\<open>en\<close>.\<close>

definition locales_of :: "vstate \<Rightarrow> error + jsval list" where
  "locales_of s =
     (case fields_of ''languages''
             (case map_of (collections s) ''set'' of None \<Rightarrow> [] | Some kvs \<Rightarrow> js_values kvs) of
        Inl e \<Rightarrow> Inl e
      | Inr languages \<Rightarrow>
          Inr (filter (\<lambda>lang. lang \<noteq> JStr ''en'') (lodash_uniq (lodash_flatten languages))))"

definition validateLocales :: "validator \<Rightarrow> env \<Rightarrow> vstate \<Rightarrow> error + vstate" where
  "validateLocales v ev s =
     (case locales_of s of
        Inl e \<Rightarrow> Inl e
      | Inr locales \<Rightarrow> validateLocaleList v ev locales s)"

definition skip_notice :: string where
  "skip_notice = ''There were errors in main files. Validation of translated files skipped.'' @ nl"

definition Validator_validate :: "validator \<Rightarrow> env \<Rightarrow> vstate \<Rightarrow> error + vstate" where
  "Validator_validate v ev s =
     (case ValidatorBase_validate v ev s of
        Inl e \<Rightarrow> Inl e
      | Inr s1 \<Rightarrow>
          if validation (errors s1) = 0 then validateLocales v ev s1
          else Inr (log (logger v) skip_notice 0 s1))"

definition showResults :: "validator \<Rightarrow> vstate \<Rightarrow> vstate" where
  "showResults v s =
     (log (logger v)
        (''Found '' @ c (show_int (int (formatting (errors s)))) @ '' formatting and ''
         @ c (show_int (int (validation (errors s)))) @ '' validation errors'' @ nl) 0 s)
     \<lparr>exitCode := Some (if formatting (errors s) + validation (errors s) = 0 then 0 else 1)\<rparr>"

text \<open>The state of a process that has just started on a file tree.\<close>

definition initial_state :: "(string \<times> node) list \<Rightarrow> vstate" where
  "initial_state d =
     \<lparr>errors = no_errors, togglePrefix = True, collections = [], disk = d,
      stdout = [], exitCode = None\<rparr>"

text \<open>\<^verbatim>\<open>main\<close>, for the directory \<open>base\<close> above the script: an exception that
  \<^verbatim>\<open>validate\<close> throws is caught nowhere, and \<^verbatim>\<open>showResults\<close> is not reached.\<close>

definition main :: "env \<Rightarrow> string \<Rightarrow> (string \<times> node) list \<Rightarrow> error + vstate" where
  "main ev base d =
     (let v = new_Validator base \<lparr>verbose = 0, indent = 0, prefix = []\<rparr> True
      in case Validator_validate v ev (initial_state d) of
           Inl e \<Rightarrow> Inl e
         | Inr s \<Rightarrow> Inr (showResults v s))"

section \<open>The locale merge tool\<close>

text \<open>
  \<^verbatim>\<open>scripts/update_locales.js\<close>, the part that merges the printings.
  \<^verbatim>\<open>loadPrintings\<close> keeps of every printing of a file the fields \<^verbatim>\<open>code\<close> and
  \<^verbatim>\<open>flavor\<close> (\<^verbatim>\<open>_.pick\<close> inside \<^verbatim>\<open>_.map\<close>).
\<close>

fun lodash_pick :: "jsval \<Rightarrow> string list \<Rightarrow> jsval" where
  "lodash_pick (JObj kvs) paths =
     JObj (concat (map (\<lambda>k. case map_of kvs k of None \<Rightarrow> [] | Some v \<Rightarrow> [(k, v)]) paths))"
| "lodash_pick other paths = JObj []"

fun map_elements :: "jsval \<Rightarrow> jsval list" where
  "map_elements (JArr xs) = xs"
| "map_elements (JObj kvs) = js_values kvs"
| "map_elements (JStr s) = map (\<lambda>ch. JStr [ch]) s"
| "map_elements other = []"

definition loadPrintings_file :: "jsval \<Rightarrow> jsval list" where
  "loadPrintings_file loaded = map (\<lambda>p. lodash_pick p [''code'', ''flavor'']) (map_elements loaded)"

text \<open>\<^verbatim>\<open>codeFn = p => `${p.code}`\<close> on a picked record, and \<^verbatim>\<open>_.keyBy\<close> with it.\<close>

definition codeFn :: "jsval \<Rightarrow> string" where
  "codeFn p = (case get_field p ''code'' of Inl e \<Rightarrow> [] | Inr code \<Rightarrow> js_string code)"

definition keyBy_code :: "jsval list \<Rightarrow> (string \<times> jsval) list" where
  "keyBy_code ps = foldl (\<lambda>acc p. AList.update (codeFn p) p acc) [] ps"

text \<open>
  \<^verbatim>\<open>_.merge\<close> of one record into another, for records whose fields hold no two
  nested values (arrays or objects) under the same key: a field of the source replaces
  the field of the destination, an \<^verbatim>\<open>undefined\<close> one apart. Where both records hold a
  nested value under one key, lodash merges the two recursively; that case is left out
  (\<open>None\<close>).
\<close>

fun is_nested :: "jsval \<Rightarrow> bool" where
  "is_nested (JArr xs) = True"
| "is_nested (JObj kvs) = True"
| "is_nested other = False"

fun merge_fields ::
  "(string \<times> jsval) list \<Rightarrow> (string \<times> jsval) list \<Rightarrow> (string \<times> jsval) list option" where
  "merge_fields dst [] = Some dst"
| "merge_fields dst ((k, v) # src) =
     (if is_nested v \<and> (case map_of dst k of None \<Rightarrow> False | Some old \<Rightarrow> is_nested old) then None
      else if v = JUndef \<and> k \<in> set (map fst dst) then merge_fields dst src
      else merge_fields (AList.update k v dst) src)"

definition merge_record :: "jsval option \<Rightarrow> jsval \<Rightarrow> jsval option" where
  "merge_record dst src =
     (case src of
        JObj props \<Rightarrow>
          map_option JObj
            (merge_fields (case dst of Some (JObj old) \<Rightarrow> old | other \<Rightarrow> [])
               (js_own_order (AList.clearjunk props)))
      | other \<Rightarrow> None)"

text \<open>One source of \<^verbatim>\<open>_.merge({}, a, b)\<close>: every record of the keyed object \<open>src\<close>
  is merged into the record the result holds under the same key.\<close>

fun merge_keyed ::
  "(string \<times> jsval) list \<Rightarrow> (string \<times> jsval) list \<Rightarrow> (string \<times> jsval) list option" where
  "merge_keyed acc [] = Some acc"
| "merge_keyed acc ((k, p) # src) =
     (case merge_record (map_of acc k) p of
        None \<Rightarrow> None
      | Some merged \<Rightarrow> merge_keyed (AList.update k merged acc) src)"

text \<open>
  \<^verbatim>\<open>_.sortBy\<close> is called with no iteratee, so it compares the records themselves:
  two objects are neither smaller nor greater than one another, and the stable sort
  leaves the list as it is. The function \<^verbatim>\<open>sortFn\<close>, which looks the position of a
  printing up in the base file, is defined in \<^verbatim>\<open>mergeLists\<close> and never used.
\<close>

definition sortBy_identity :: "jsval list \<Rightarrow> jsval list" where
  "sortBy_identity records = records"

definition mergeLists_file :: "jsval list option \<Rightarrow> jsval list option \<Rightarrow> jsval list option" where
  "mergeLists_file base locale =
     (case merge_keyed [] (js_own_order (keyBy_code (case base of None \<Rightarrow> [] | Some ps \<Rightarrow> ps))) of
        None \<Rightarrow> None
      | Some fromBase \<Rightarrow>
          (case merge_keyed fromBase
                  (js_own_order (keyBy_code (case locale of None \<Rightarrow> [] | Some ps \<Rightarrow> ps))) of
             None \<Rightarrow> None
           | Some merged \<Rightarrow> Some (sortBy_identity (js_values merged))))"

definition mergeLists ::
  "(string \<times> jsval list) list \<Rightarrow> (string \<times> jsval list) list \<Rightarrow> (string \<times> jsval list option) list" where
  "mergeLists defaultLocale locale =
     map (\<lambda>file. (file, mergeLists_file (map_of defaultLocale file) (map_of locale file)))
       (lodash_uniq (map fst (js_own_order (AList.clearjunk defaultLocale))
                     @ map fst (js_own_order (AList.clearjunk locale))))"


text \<open>
  A way to say that a step has kept every code of every registered collection: each
  kind that had an object has one afterwards, with at least the keys it had.
\<close>

definition codes_kept ::
  "(string \<times> (string \<times> jsval) list) list \<Rightarrow> (string \<times> (string \<times> jsval) list) list \<Rightarrow> bool" where
  "codes_kept before after =
     (\<forall>thing kvs. map_of before thing = Some kvs
        \<longrightarrow> (\<exists>kvs'. map_of after thing = Some kvs' \<and> fst ` set kvs \<subseteq> fst ` set kvs'))"

section \<open>Example inputs\<close>

text \<open>The validator \<^verbatim>\<open>main\<close> builds, for a repository at \<^verbatim>\<open>r\<close>.\<close>

definition ex_validator :: validator where
  "ex_validator = new_Validator ''r'' \<lparr>verbose = 0, indent = 0, prefix = []\<rparr> True"

text \<open>A keyword whose rules use the placeholder \<^verbatim>\<open>{n}\<close> and that declares no argument.\<close>

definition ex_keyword :: jsval where
  "ex_keyword = JObj [(''code'', JStr ''draw''), (''rules'', JStr ''Draw {n} cards'')]"

text \<open>A compiled schema that accepts every record.\<close>

definition accept_all :: ajv_validator where
  "accept_all data = (True, [])"

text \<open>
  The worlds of the examples are built from tables: what the parser returns for a
  text, what the serializer returns for a value, which files the glob finds in a
  directory. The pluralizer is that of the nine kinds.
\<close>

definition ex_plural :: "string \<Rightarrow> string" where
  "ex_plural thing = (if thing = ''rarity'' then ''rarities'' else thing @ ''s'')"

definition table_env ::
  "(string \<times> jsval) list \<Rightarrow> (jsval \<times> string) list \<Rightarrow> (string \<times> string list) list
     \<Rightarrow> (jsval \<Rightarrow> ajv_validator option) \<Rightarrow> env" where
  "table_env parsed dumped globbed compile =
     \<lparr>yamlLoad = map_of parsed,
      yamlDump = (\<lambda>opts data. map_of dumped data),
      globYml = (\<lambda>dir. case map_of globbed dir of None \<Rightarrow> [] | Some files \<Rightarrow> files),
      ajvCompile = compile,
      plural = ex_plural\<rparr>"

definition ex_kinds :: "string list" where
  "ex_kinds = map fst things"

text \<open>The directories and the schema files of a repository at \<^verbatim>\<open>r\<close> with the locale
  \<^verbatim>\<open>fr\<close>: every schema is the text \<^verbatim>\<open>type: object\<close>.\<close>

definition ex_dirs :: "(string \<times> node) list" where
  "ex_dirs =
     map (\<lambda>d. (d, Dir True))
       ([''r/data'', ''r/schema'', ''r/data/translations/fr'', ''r/schema/translations'']
        @ map (\<lambda>k. ''r/data/'' @ ex_plural k) ex_kinds
        @ map (\<lambda>k. ''r/data/translations/fr/'' @ ex_plural k) ex_kinds)"

definition ex_schema_text :: string where
  "ex_schema_text = ''type: object'' @ nl"

definition ex_schema :: jsval where
  "ex_schema = JObj [(''type'', JStr ''object'')]"

definition ex_schemas :: "(string \<times> node) list" where
  "ex_schemas =
     map (\<lambda>k. (''r/schema/'' @ k @ ''_schema.yml'', File True True ex_schema_text)) ex_kinds
     @ map (\<lambda>k. (''r/schema/translations/'' @ k @ ''_schema.yml'', File True True ex_schema_text))
         ex_kinds"

definition ex_compile :: "jsval \<Rightarrow> ajv_validator option" where
  "ex_compile schema = (if schema = ex_schema then Some accept_all else None)"

text \<open>A set that enables French, an ink and its French overlay.\<close>

definition ex_set_text :: string where
  "ex_set_text = ''code: tfc'' @ nl @ ''languages:'' @ nl @ ''  - en'' @ nl @ ''  - fr'' @ nl"

definition ex_set :: jsval where
  "ex_set = JObj [(''code'', JStr ''tfc''), (''languages'', JArr [JStr ''en'', JStr ''fr''])]"

definition ex_ink_text :: string where
  "ex_ink_text = ''code: amber'' @ nl @ ''name: Amber'' @ nl"

definition ex_ink_unsorted_text :: string where
  "ex_ink_unsorted_text = ''name: Amber'' @ nl @ ''code: amber'' @ nl"

definition ex_ink :: jsval where
  "ex_ink = JObj [(''code'', JStr ''amber''), (''name'', JStr ''Amber'')]"

definition ex_ink_fr_text :: string where
  "ex_ink_fr_text = ''code: amber'' @ nl @ ''name: Ambre'' @ nl"

definition ex_ink_fr :: jsval where
  "ex_ink_fr = JObj [(''code'', JStr ''amber''), (''name'', JStr ''Ambre'')]"

text \<open>World A: the ink file has its keys in the wrong order, everything else is
  canonical.\<close>

definition envA :: env where
  "envA =
     table_env
       [(ex_schema_text, ex_schema), (ex_set_text, ex_set), (ex_ink_text, ex_ink),
        (ex_ink_unsorted_text, ex_ink), (ex_ink_fr_text, ex_ink_fr)]
       [(ex_schema, ex_schema_text), (ex_set, ex_set_text), (ex_ink, ex_ink_text),
        (ex_ink_fr, ex_ink_fr_text)]
       [(''r/data/sets'', [''tfc.yml'']), (''r/data/inks'', [''amber.yml'']),
        (''r/data/translations/fr/inks'', [''amber.yml''])]
       ex_compile"

definition diskA :: "(string \<times> node) list" where
  "diskA =
     ex_dirs @ ex_schemas
     @ [(''r/data/sets/tfc.yml'', File True True ex_set_text),
        (''r/data/inks/amber.yml'', File True True ex_ink_unsorted_text),
        (''r/data/translations/fr/inks/amber.yml'', File True True ex_ink_fr_text)]"

text \<open>World B: a canonical repository whose keyword uses an undeclared placeholder.\<close>

definition ex_keyword_text :: string where
  "ex_keyword_text = ''code: draw'' @ nl @ ''rules: Draw {n} cards'' @ nl"

definition envB :: env where
  "envB =
     table_env
       [(ex_schema_text, ex_schema), (ex_set_text, ex_set), (ex_keyword_text, ex_keyword)]
       [(ex_schema, ex_schema_text), (ex_set, ex_set_text), (ex_keyword, ex_keyword_text)]
       [(''r/data/sets'', [''tfc.yml'']), (''r/data/keywords'', [''draw.yml''])]
       ex_compile"

definition diskB :: "(string \<times> node) list" where
  "diskB =
     ex_dirs @ ex_schemas
     @ [(''r/data/sets/tfc.yml'', File True True ex_set_text),
        (''r/data/keywords/draw.yml'', File True True ex_keyword_text)]"

text \<open>World C: the schema of the types does not compile, the file of the one type has
  its keys in the wrong order, and there is one card.\<close>

definition ex_bad_schema_text :: string where
  "ex_bad_schema_text = ''type: objekt'' @ nl"

definition ex_bad_schema :: jsval where
  "ex_bad_schema = JObj [(''type'', JStr ''objekt'')]"

definition ex_type_text :: string where
  "ex_type_text = ''code: character'' @ nl @ ''name: Character'' @ nl"

definition ex_type_unsorted_text :: string where
  "ex_type_unsorted_text = ''name: Character'' @ nl @ ''code: character'' @ nl"

definition ex_type :: jsval where
  "ex_type = JObj [(''code'', JStr ''character''), (''name'', JStr ''Character'')]"

definition ex_card_text :: string where
  "ex_card_text = ''code: mickey'' @ nl @ ''name: Mickey'' @ nl"

definition ex_card :: jsval where
  "ex_card = JObj [(''code'', JStr ''mickey''), (''name'', JStr ''Mickey'')]"

definition envC :: env where
  "envC =
     table_env
       [(ex_schema_text, ex_schema), (ex_bad_schema_text, ex_bad_schema),
        (ex_type_text, ex_type), (ex_type_unsorted_text, ex_type), (ex_card_text, ex_card)]
       [(ex_schema, ex_schema_text), (ex_bad_schema, ex_bad_schema_text),
        (ex_type, ex_type_text), (ex_card, ex_card_text)]
       [(''r/data/types'', [''character.yml'']), (''r/data/cards'', [''character/mickey.yml''])]
       ex_compile"

definition diskC :: "(string \<times> node) list" where
  "diskC =
     ex_dirs
     @ [(''r/schema/type_schema.yml'', File True True ex_bad_schema_text)]
     @ ex_schemas
     @ [(''r/data/types/character.yml'', File True True ex_type_unsorted_text),
        (''r/data/cards/character/mickey.yml'', File True True ex_card_text)]"










text \<open>World A after the base pass, and after the pass of the locale \<^verbatim>\<open>fr\<close>.\<close>

definition stateA1 :: vstate where
  "stateA1 =
     \<lparr>errors = \<lparr>formatting = 1, validation = 0, nonFixedFormatting = 0\<rparr>,
      togglePrefix = True,
      collections =
        [(''ink'', [(''amber'', ex_ink)]), (''trait'', []), (''keyword'', []), (''cycle'', []),
         (''rarity'', []), (''set'', [(''tfc'', ex_set)]), (''type'', []), (''card'', []),
         (''printing'', [])],
      disk = AList.update ''r/data/inks/amber.yml'' (File True True ex_ink_text) diskA,
      stdout =
        [[], [], ''Validating data...'' @ nl,
         [], [], ''data/inks/amber.yml: File is not correctly formatted YAML'' @ nl,
         [], [], ''data/inks/amber.yml: Fixing YAML formatting...'' @ nl],
      exitCode = None\<rparr>"


text \<open>A base file of printings that lists the printing of position 2 first.\<close>

definition ex_printings :: "jsval list" where
  "ex_printings =
     [JObj [(''code'', JStr ''tfc-2''), (''card'', JStr ''mickey''), (''position'', JNum 2),
            (''flavor'', JStr ''B'')],
      JObj [(''code'', JStr ''tfc-1''), (''card'', JStr ''minnie''), (''position'', JNum 1),
            (''flavor'', JStr ''A'')]]"

section \<open>What the steps leave unchanged\<close>

lemma log_frame [simp]:
  "errors (log lg txt m s) = errors s"
  "collections (log lg txt m s) = collections s"
  "disk (log lg txt m s) = disk s"
  "exitCode (log lg txt m s) = exitCode s"
  by (simp_all add: log_def Let_def)

lemma add_validation_frame [simp]:
  "validation (errors (add_validation s)) = validation (errors s) + 1"
  "formatting (errors (add_validation s)) = formatting (errors s)"
  "nonFixedFormatting (errors (add_validation s)) = nonFixedFormatting (errors s)"
  "collections (add_validation s) = collections s"
  "disk (add_validation s) = disk s"
  "exitCode (add_validation s) = exitCode s"
  "togglePrefix (add_validation s) = togglePrefix s"
  "stdout (add_validation s) = stdout s"
  by (simp_all add: add_validation_def)

lemma add_formatting_frame [simp]:
  "validation (errors (add_formatting s)) = validation (errors s)"
  "formatting (errors (add_formatting s)) = formatting (errors s) + 1"
  "nonFixedFormatting (errors (add_formatting s)) = nonFixedFormatting (errors s)"
  "collections (add_formatting s) = collections s"
  "disk (add_formatting s) = disk s"
  "exitCode (add_formatting s) = exitCode s"
  "togglePrefix (add_formatting s) = togglePrefix s"
  "stdout (add_formatting s) = stdout s"
  by (simp_all add: add_formatting_def)

lemma add_nonFixedFormatting_frame [simp]:
  "validation (errors (add_nonFixedFormatting s)) = validation (errors s)"
  "formatting (errors (add_nonFixedFormatting s)) = formatting (errors s)"
  "nonFixedFormatting (errors (add_nonFixedFormatting s)) = nonFixedFormatting (errors s) + 1"
  "collections (add_nonFixedFormatting s) = collections s"
  "disk (add_nonFixedFormatting s) = disk s"
  "exitCode (add_nonFixedFormatting s) = exitCode s"
  "togglePrefix (add_nonFixedFormatting s) = togglePrefix s"
  "stdout (add_nonFixedFormatting s) = stdout s"
  by (simp_all add: add_nonFixedFormatting_def)

lemma log_emits:
  "minimumVerbosity \<le> verbose lg \<Longrightarrow> txt \<in> set (stdout (log lg txt minimumVerbosity s))"
  by (simp add: log_def Let_def)

lemma showResults_frame [simp]:
  "errors (showResults v s) = errors s"
  "exitCode (showResults v s) =
     Some (if formatting (errors s) + validation (errors s) = 0 then 0 else 1)"
  by (simp_all add: showResults_def)

lemma codes_kept_refl [simp]: "codes_kept cs cs"
  by (auto simp add: codes_kept_def)


lemma file_failed_frame [simp]:
  "collections (snd (file_failed v filepath s)) = collections s"
  "exitCode (snd (file_failed v filepath s)) = exitCode s"
  by (simp_all add: file_failed_def)

lemma getDataFromFile_collections [simp]:
  "collections (snd (getDataFromFile v ev filepath s)) = collections s"
  by (simp add: getDataFromFile_def Let_def split: option.splits)

lemma loadFiles_collections:
  "loadFiles v ev thingPath pathInfo files acc s = (coll, s') \<Longrightarrow> collections s' = collections s"
proof (induction files arbitrary: acc s)
  case Nil
  then show ?case by simp
next
  case (Cons f files)
  obtain loaded s1 where g: "getDataFromFile v ev (path_join [thingPath, f]) s = (loaded, s1)"
    by (cases "getDataFromFile v ev (path_join [thingPath, f]) s")
  then have "collections s1 = collections s"
    using getDataFromFile_collections [of v ev "path_join [thingPath, f]" s] by simp
  with Cons g show ?case by simp
qed

lemma loadThingsData_collections:
  "loadThingsData v ev thingPath pathInfo s = (coll, s') \<Longrightarrow> collections s' = collections s"
  unfolding loadThingsData_def by (rule loadFiles_collections)














section \<open>Storing and merging records\<close>












section \<open>The runs of the examples\<close>

lemma baseA: "ValidatorBase_validate ex_validator envA (initial_state diskA) = Inr stateA1"
  by code_simp




lemma validation_A1: "validation (errors stateA1) = 0"
  by (simp add: stateA1_def)


section \<open>Path-derived fields of a card\<close>




section \<open>The exit code\<close>




section \<open>Locales are validated only after a clean base pass\<close>

text \<open>
  Claim C4. When the base pass ends with a \<open>validation\<close> counter other than zero,
  \<^verbatim>\<open>Validator.validate\<close> does nothing but log the skip notice: the state it returns
  is the state of the base pass with that one line logged, so no locale validator has
  run, the error counters, the collections and the files are those of the base pass,
  and the notice is on the output (at any verbosity from 0 on). When the counter is
  zero, the result is that of \<^verbatim>\<open>validateLocales\<close> on the state of the base pass.
\<close>

theorem locales_only_after_clean_base:
  assumes "ValidatorBase_validate v ev s = Inr s1"
  shows "(validation (errors s1) \<noteq> 0
            \<longrightarrow> (\<exists>s2. Validator_validate v ev s = Inr s2
                   \<and> s2 = log (logger v) skip_notice 0 s1
                   \<and> errors s2 = errors s1 \<and> collections s2 = collections s1 \<and> disk s2 = disk s1
                   \<and> (0 \<le> verbose (logger v) \<longrightarrow> skip_notice \<in> set (stdout s2))))
       \<and> (validation (errors s1) = 0 \<longrightarrow> Validator_validate v ev s = validateLocales v ev s1)"
  using assms by (simp add: Validator_validate_def log_emits)

theorem locales_only_after_clean_base_witness:
  "(\<exists>s1 s2. ValidatorBase_validate ex_validator envB (initial_state diskB) = Inr s1
      \<and> validation (errors s1) = 1
      \<and> Validator_validate ex_validator envB (initial_state diskB) = Inr s2
      \<and> errors s2 = errors s1 \<and> collections s2 = collections s1
      \<and> skip_notice \<in> set (stdout s2))
   \<and> validation (errors stateA1) = 0
   \<and> Validator_validate ex_validator envA (initial_state diskA)
       = validateLocales ex_validator envA stateA1"
proof -
  have "case ValidatorBase_validate ex_validator envB (initial_state diskB) of
          Inl e \<Rightarrow> False
        | Inr s1 \<Rightarrow> validation (errors s1) = 1"
    by code_simp
  then obtain s1 where base: "ValidatorBase_validate ex_validator envB (initial_state diskB) = Inr s1"
    and one: "validation (errors s1) = 1"
    by (cases "ValidatorBase_validate ex_validator envB (initial_state diskB)") auto
  have verbose: "0 \<le> verbose (logger ex_validator)"
    by (simp add: ex_validator_def new_Validator_def)
  from locales_only_after_clean_base [OF base] one verbose base
  have skipped: "\<exists>s1 s2. ValidatorBase_validate ex_validator envB (initial_state diskB) = Inr s1
      \<and> validation (errors s1) = 1
      \<and> Validator_validate ex_validator envB (initial_state diskB) = Inr s2
      \<and> errors s2 = errors s1 \<and> collections s2 = collections s1
      \<and> skip_notice \<in> set (stdout s2)"
    by auto
  from locales_only_after_clean_base [OF baseA] validation_A1
  have "Validator_validate ex_validator envA (initial_state diskA)
          = validateLocales ex_validator envA stateA1"
    by simp
  with skipped validation_A1 show ?thesis
    by blast
qed

section \<open>Placeholders of a keyword\<close>

text \<open>
  Claim C5 against the code. \<^verbatim>\<open>customCheckKeyword\<close> compares with \<^verbatim>\<open>args\<close> the
  second character of every match, not the expression between the braces. For a
  placeholder of one character that is the expression: the two examples of the
  specification behave as it says. For a longer expression it is not: a keyword that
  declares \<^verbatim>\<open>cost\<close> and uses \<^verbatim>\<open>{cost}\<close> gets a violation that names \<^verbatim>\<open>{c}\<close>, and
  one that declares \<^verbatim>\<open>c\<close> only and uses \<^verbatim>\<open>{cost}\<close> gets none.
\<close>

theorem customCheckKeyword_second_character:
  "customCheckKeyword
     (JObj [(''code'', JStr ''draw''), (''rules'', JStr ''Draw {n} cards''), (''args'', JArr [JStr ''n''])])
     = Inr []
   \<and> customCheckKeyword
       (JObj [(''code'', JStr ''draw''), (''rules'', JStr ''Draw {n} cards''), (''args'', JArr [])])
     = Inr [keyword_message (JStr ''n'') (JStr ''draw'')]
   \<and> customCheckKeyword
       (JObj [(''code'', JStr ''shift''), (''rules'', JStr ''Shift {cost}''),
              (''args'', JArr [JStr ''cost''])])
     = Inr [keyword_message (JStr ''c'') (JStr ''shift'')]
   \<and> customCheckKeyword
       (JObj [(''code'', JStr ''shift''), (''rules'', JStr ''Shift {cost}''),
              (''args'', JArr [JStr ''c''])])
     = Inr []"
  by code_simp

section \<open>A schema that does not compile\<close>

text \<open>
  Claim C6, as amended. When the schema of a collection does not compile, the failure
  is logged and counted as one validation error, none of the records of that
  collection is validated against the schema or cross-checked (the state
  \<^verbatim>\<open>loadCollection\<close> returns is the state after the schema file was read, with the
  log line and the one error added), the collection is not registered, and the loop
  over the kinds goes on with the next kind. The formatting checks of that collection
  are not skipped: its data files and its schema file were audited, and counted, when
  they were read.
\<close>

theorem schema_compile_failure_skips_collection:
  assumes dir: "checkDirAccess (disk s) (thingDir v ev thing) = Inr ()"
    and load: "loadThingsData v ev (thingDir v ev thing) pathInfo
                 (log (logger v) (loading_notice ev thing) 1 s) = (thingsData, s2)"
    and access: "checkFileAccess (disk s2) (schemaFile v thing) = Inr ()"
    and schema: "getDataFromFile v ev (schemaFile v thing)
                   (log (logger v) (validating_notice ev thing) 1 s2) = (schemaData, s3)"
    and truthy: "truthy schemaData"
    and compile: "ajvCompile ev schemaData = None"
  shows "\<exists>s4. loadCollection v ev thing pathInfo s = Inr (None, s4)
           \<and> s4 = add_validation
                    (log (logger v)
                       (schemaFile v thing @ '': schema file is not a valid JSON Schema'' @ nl) 0 s3)
           \<and> validation (errors s4) = validation (errors s3) + 1
           \<and> formatting (errors s4) = formatting (errors s3)
           \<and> nonFixedFormatting (errors s4) = nonFixedFormatting (errors s3)
           \<and> collections s4 = collections s
           \<and> validateThings v ev ((thing, pathInfo) # rest) s = validateThings v ev rest s4"
proof -
  let ?s4 = "add_validation
               (log (logger v)
                  (schemaFile v thing @ '': schema file is not a valid JSON Schema'' @ nl) 0 s3)"
  have vc: "validateCollection v ev thing thingsData s2 = Inr (False, ?s4)"
    using access schema truthy compile
    by (simp add: validateCollection_def Let_def checkJsonSchema_def)
  have lc: "loadCollection v ev thing pathInfo s = Inr (None, ?s4)"
    using dir load vc by (simp add: loadCollection_def Let_def)
  have "collections s3 = collections s2"
    using getDataFromFile_collections
            [of v ev "schemaFile v thing" "log (logger v) (validating_notice ev thing) 1 s2"] schema
    by simp
  moreover have "collections s2 = collections s"
    using loadThingsData_collections [OF load] by simp
  ultimately have "collections ?s4 = collections s"
    by simp
  with lc show ?thesis
    by simp
qed

theorem schema_compile_failure_skips_collection_witness:
  "\<exists>s4. loadCollection ex_validator envC ''type'' None (initial_state diskC) = Inr (None, s4)
      \<and> validation (errors s4) = 1 \<and> formatting (errors s4) = 1 \<and> collections s4 = []"
proof -
  let ?s = "initial_state diskC"
  let ?L = "loadThingsData ex_validator envC (thingDir ex_validator envC ''type'') None
              (log (logger ex_validator) (loading_notice envC ''type'') 1 ?s)"
  let ?G = "getDataFromFile ex_validator envC (schemaFile ex_validator ''type'')
              (log (logger ex_validator) (validating_notice envC ''type'') 1 (snd ?L))"
  have dir: "checkDirAccess (disk ?s) (thingDir ex_validator envC ''type'') = Inr ()"
    by code_simp
  have load: "?L = (fst ?L, snd ?L)"
    by simp
  have access: "checkFileAccess (disk (snd ?L)) (schemaFile ex_validator ''type'') = Inr ()"
    by code_simp
  have schema: "?G = (fst ?G, snd ?G)"
    by simp
  have data: "fst ?G = ex_bad_schema"
    by code_simp
  have truthy: "truthy (fst ?G)"
    by (simp add: data ex_bad_schema_def)
  have compile: "ajvCompile envC (fst ?G) = None"
    unfolding data by code_simp
  have counts: "validation (errors (snd ?G)) = 0 \<and> formatting (errors (snd ?G)) = 1"
    by code_simp
  have empty: "collections ?s = []"
    by (simp add: initial_state_def)
  from schema_compile_failure_skips_collection [OF dir load access schema truthy compile] counts empty
  show ?thesis
    by auto
qed

text \<open>
  The claim as it was stated fails in world C, where the schema of the types does not
  compile: the formatting error of the file of the type is counted all the same, and
  the run does not go on to its end, since the check of the one card reads the type
  collection that was never registered.
\<close>

theorem schema_compile_failure_counterexample:
  "map_sum id (\<lambda>r. (fst r, formatting (errors (snd r)), validation (errors (snd r))))
     (loadCollection ex_validator envC ''type'' None (initial_state diskC)) = Inr (None, 1, 1)
   \<and> ValidatorBase_validate ex_validator envC (initial_state diskC)
       = Inl (TypeError (''Cannot read properties of undefined (reading '' @ [CHR 0x27]
                          @ ''character'' @ [CHR 0x27] @ '')''))"
  by code_simp

section \<open>The base collections during locale validation\<close>




section \<open>Codes and the collection mapping\<close>




section \<open>The order of the merged printings\<close>

text \<open>
  Claim C9 against the code. \<^verbatim>\<open>mergeLists\<close> returns the merged printings of a file
  in the order of the keys of the merged object, which is the order the printings have
  in the base file (\<^verbatim>\<open>sortFn\<close>, which reads the positions, is never passed to
  \<^verbatim>\<open>_.sortBy\<close>). A base file that lists the printing of position 2 before the
  printing of position 1 is merged in that order.
\<close>

theorem mergeLists_keeps_file_order:
  "map (\<lambda>p. get_field p ''position'') ex_printings = [Inr (JNum 2), Inr (JNum 1)]
   \<and> mergeLists [(''printings/tfc.yml'', loadPrintings_file (JArr ex_printings))] []
     = [(''printings/tfc.yml'',
         Some [JObj [(''code'', JStr ''tfc-2''), (''flavor'', JStr ''B'')],
               JObj [(''code'', JStr ''tfc-1''), (''flavor'', JStr ''A'')]])]"
  by code_simp

section \<open>One validation error for a failed record\<close>

text \<open>
  Claim C10. A record that \<^verbatim>\<open>validateSchema\<close> validates adds exactly one to the
  \<open>validation\<close> counter when it fails: when the compiled schema rejects it, and when
  the schema accepts it and \<^verbatim>\<open>customCheck\<close> returns violations, however many. A
  record that passes both adds nothing. The other two counters stay as they are, and
  the call returns the verdict of the schema. (The call returns whenever the record is
  not \<^verbatim>\<open>null\<close> or \<^verbatim>\<open>undefined\<close> and \<^verbatim>\<open>customCheck\<close> does not throw.)
\<close>

theorem validateSchema_counts_once:
  assumes "get_field thingData ''code'' = Inr code"
    and "fst (validate thingData)
           \<longrightarrow> customCheck (rules v) (collections s) thing thingData = Inr customErrors"
  shows "\<exists>s'. validateSchema v thing thingData validate s = Inr (fst (validate thingData), s')
           \<and> validation (errors s') =
               validation (errors s) + (if fst (validate thingData) \<and> customErrors = [] then 0 else 1)
           \<and> formatting (errors s') = formatting (errors s)
           \<and> nonFixedFormatting (errors s') = nonFixedFormatting (errors s)"
  using assms by (cases "validate thingData") (auto simp add: validateSchema_def Let_def)

theorem validateSchema_counts_once_witness:
  "\<exists>s'. validateSchema ex_validator ''keyword'' ex_keyword accept_all (initial_state [])
           = Inr (True, s')
        \<and> validation (errors s') = 1 \<and> formatting (errors s') = 0"
proof -
  have code: "get_field ex_keyword ''code'' = Inr (JStr ''draw'')"
    by code_simp
  have check:
    "customCheck (rules ex_validator) (collections (initial_state [])) ''keyword'' ex_keyword
       = Inr [keyword_message (JStr ''n'') (JStr ''draw'')]"
    by code_simp
  have valid: "fst (accept_all ex_keyword)"
    by (simp add: accept_all_def)
  from validateSchema_counts_once
         [OF code, of accept_all ex_validator "initial_state []" "''keyword''", OF impI [OF check]]
       valid
  show ?thesis
    by (auto simp add: initial_state_def no_errors_def)
qed

end
